theory Spec2Isabelle
  imports Main "HOL-Library.Word" "HOL-Library.AList"
begin

section \<open>The encrypted account vault of the wallet extension\<close>

text \<open>
  A shallow embedding of \<^verbatim>\<open>apps/extension/src/core/hooks/useAccounts.ts\<close>. Every
  function of the hooks is a HOL function from the world before the call to the outcome
  of the call and the world after it. A \<^verbatim>\<open>throw\<close> (of the source or of a library it
  calls) is the outcome \<open>Inl e\<close>; the world returned with it holds whatever the call had
  written before it threw.
\<close>

subsection \<open>Values\<close>

text \<open>A \<^verbatim>\<open>Uint8Array\<close>.\<close>

type_synonym bytes = "8 word list"

text \<open>
  What a call can throw: \<^verbatim>\<open>new Error(message)\<close>, a \<^verbatim>\<open>TypeError\<close> of the runtime, the
  \<^verbatim>\<open>SyntaxError\<close> of \<^verbatim>\<open>JSON.parse\<close>, and the \<^verbatim>\<open>ApiError\<close> of the \<^verbatim>\<open>aptos\<close> package with
  its optional \<^verbatim>\<open>errorCode\<close>.
\<close>

datatype error = Error string | TypeError | SyntaxError | ApiError "string option"

text \<open>
  Modelled from the spec: the types \<^verbatim>\<open>Account\<close>, \<^verbatim>\<open>Accounts\<close> and \<^verbatim>\<open>EncryptedAccounts\<close> of
  \<^verbatim>\<open>shared/types\<close>, which the source imports. An optional field that is absent (or
  \<^verbatim>\<open>undefined\<close>) is \<open>None\<close>.
\<close>

record Account =
  address :: string
  publicKey :: string
  privateKey :: string
  name :: "string option"
  mnemonic :: "string option"

text \<open>
  \<^verbatim>\<open>Accounts\<close> is a JavaScript object used as a dictionary from address to account. It
  is the list of its own properties in the order of their creation: \<open>map_of\<close> reads a
  property, \<open>AList.update\<close> writes one (in place when the key exists, at the end when it
  is new) and \<open>AList.delete\<close> deletes one.
\<close>

type_synonym Accounts = "(string \<times> Account) list"

record EncryptedAccounts =
  ciphertext :: string
  nonce :: string

text \<open>The argument of \<^verbatim>\<open>triggerAccountChange\<close>: \<^verbatim>\<open>{ address, publicKey }\<close>.\<close>

datatype PublicAccount = PublicAccount string string

subsection \<open>The order of \<^verbatim>\<open>Object.keys\<close>\<close>

text \<open>
  \<^verbatim>\<open>Object.keys\<close> lists the keys that are array indices first, in ascending numeric
  order, and then the other keys in the order of their creation. An array index is the
  canonical decimal numeral of an integer from 0 to \<open>2^32 - 2\<close>.
\<close>

definition is_digit :: "char \<Rightarrow> bool" where
  "is_digit c = (48 \<le> (of_char c :: nat) \<and> (of_char c :: nat) \<le> 57)"

definition index_value :: "string \<Rightarrow> nat" where
  "index_value s = foldl (\<lambda>n c. 10 * n + ((of_char c :: nat) - 48)) 0 s"

definition is_array_index :: "string \<Rightarrow> bool" where
  "is_array_index s =
     (case s of
        [] \<Rightarrow> False
      | c # cs \<Rightarrow>
          list_all is_digit s \<and> (if c = CHR ''0'' then cs = [] else True)
          \<and> length s \<le> 10 \<and> index_value s < 4294967295)"

definition Object_keys :: "Accounts \<Rightarrow> string list" where
  "Object_keys obj =
     sort_key index_value (filter is_array_index (map fst obj))
     @ filter (\<lambda>k. \<not> is_array_index k) (map fst obj)"

text \<open>\<^verbatim>\<open>Object.keys(obj)[0]\<close>, which is \<^verbatim>\<open>undefined\<close> for an object with no key.\<close>

definition first_key :: "Accounts \<Rightarrow> string option" where
  "first_key obj = (case Object_keys obj of [] \<Rightarrow> None | k # _ \<Rightarrow> Some k)"

subsection \<open>The libraries and collaborators\<close>

text \<open>
  The packages the source imports (\<^verbatim>\<open>pbkdf2\<close>, \<^verbatim>\<open>tweetnacl\<close>, \<^verbatim>\<open>bs58\<close>), the runtime's
  \<^verbatim>\<open>JSON\<close> and \<^verbatim>\<open>Buffer\<close>, and the collaborators \<^verbatim>\<open>latestVersion\<close> of \<^verbatim>\<open>core/constants\<close>,
  \<^verbatim>\<open>lookupOriginalAddress\<close> of \<^verbatim>\<open>useCreateAccount\<close> and \<^verbatim>\<open>keysFromAptosAccount\<close> of
  \<^verbatim>\<open>core/utils/account\<close> are parameters of the model. \<open>'k\<close> is the type of an
  \<^verbatim>\<open>AptosAccount\<close>, \<open>'r\<close> the state of the random generator.
  \<^item> \<open>pbkdf2_pbkdf2 password salt iterations keylen digest\<close> is what the callback of
    \<^verbatim>\<open>pbkdf2.pbkdf2\<close> receives: an error or the key.
  \<^item> \<open>nextByte\<close> draws one random byte.
  \<^item> \<open>xsalsa20_poly1305 msg nonce key\<close> is the box \<^verbatim>\<open>secretbox\<close> returns for a key and
    a nonce of the right sizes; \<open>xsalsa20_poly1305_open box nonce key\<close> is the message
    \<^verbatim>\<open>secretbox.open\<close> returns, \<open>None\<close> for the \<^verbatim>\<open>null\<close> of a failed authentication.
  \<^item> \<open>bs58_decode\<close> throws on a text that is not base 58.
  \<^item> \<open>JSON_parse\<close> throws on a text that is not JSON.
  \<^item> \<open>utf8_encode\<close> is \<^verbatim>\<open>Buffer.from\<close> of a string, \<open>utf8_decode\<close> is \<^verbatim>\<open>toString\<close> of a
    buffer.
  \<^item> \<open>lookupOriginalAddress aptosAccount mnemonic\<close> is the lookup with the network
    client of \<^verbatim>\<open>useNetworks\<close>.
\<close>

record ('k, 'r) env =
  latestVersion :: int
  pbkdf2_pbkdf2 :: "string \<Rightarrow> bytes \<Rightarrow> nat \<Rightarrow> nat \<Rightarrow> string \<Rightarrow> error + bytes"
  nextByte :: "'r \<Rightarrow> 8 word \<times> 'r"
  xsalsa20_poly1305 :: "bytes \<Rightarrow> bytes \<Rightarrow> bytes \<Rightarrow> bytes"
  xsalsa20_poly1305_open :: "bytes \<Rightarrow> bytes \<Rightarrow> bytes \<Rightarrow> bytes option"
  bs58_encode :: "bytes \<Rightarrow> string"
  bs58_decode :: "string \<Rightarrow> error + bytes"
  JSON_stringify :: "Accounts \<Rightarrow> string"
  JSON_parse :: "string \<Rightarrow> error + Accounts"
  utf8_encode :: "string \<Rightarrow> bytes"
  utf8_decode :: "bytes \<Rightarrow> string"
  lookupOriginalAddress :: "'k \<Rightarrow> string option \<Rightarrow> error + Account"
  keysFromAptosAccount :: "'k \<Rightarrow> Account"

subsection \<open>The world: persistent state, session state, change sink, randomness\<close>

text \<open>
  Modelled from the spec: the persistent and the session store of \<^verbatim>\<open>useAppState\<close>, with
  the keys the source writes. A key that is absent or \<^verbatim>\<open>undefined\<close> is \<open>None\<close>.
\<close>

record PersistentState =
  activeAccountAddress :: "string option"
  activeAccountPublicKey :: "string option"
  encryptedAccounts :: "EncryptedAccounts option"
  encryptedStateVersion :: "int option"
  salt :: "string option"

record SessionState =
  accounts :: "Accounts option"
  encryptionKey :: "string option"

text \<open>
  \<open>accountChanges\<close> is the list of the arguments \<^verbatim>\<open>triggerAccountChange\<close> was called
  with, the oldest first; \<open>None\<close> is \<^verbatim>\<open>undefined\<close>.
\<close>

record 'r World =
  persistent :: PersistentState
  session :: SessionState
  accountChanges :: "PublicAccount option list"
  entropy :: 'r

text \<open>
  Modelled from the spec: \<^verbatim>\<open>updatePersistentState\<close> and \<^verbatim>\<open>updateSessionState\<close> of
  \<^verbatim>\<open>useAppState\<close> merge the keys they are given into the store and leave the other keys
  untouched; the update is the function that writes the given keys.
  \<^verbatim>\<open>triggerAccountChange\<close> of \<^verbatim>\<open>core/utils/providerEvents\<close> hands its argument to the
  change sink.
\<close>

definition updatePersistentState ::
  "(PersistentState \<Rightarrow> PersistentState) \<Rightarrow> 'r World \<Rightarrow> 'r World" where
  "updatePersistentState f w = w\<lparr>persistent := f (persistent w)\<rparr>"

definition updateSessionState ::
  "(SessionState \<Rightarrow> SessionState) \<Rightarrow> 'r World \<Rightarrow> 'r World" where
  "updateSessionState f w = w\<lparr>session := f (session w)\<rparr>"

definition triggerAccountChange :: "PublicAccount option \<Rightarrow> 'r World \<Rightarrow> 'r World" where
  "triggerAccountChange publicAccount w =
     w\<lparr>accountChanges := accountChanges w @ [publicAccount]\<rparr>"

subsection \<open>Library calls\<close>

definition pbkdf2Iterations :: nat where
  "pbkdf2Iterations = 10000"

definition pbkdf2Digest :: string where
  "pbkdf2Digest = ''sha256''"

definition pbkdf2SaltSize :: nat where
  "pbkdf2SaltSize = 16"

definition secretbox_keyLength :: nat where
  "secretbox_keyLength = 32"

definition secretbox_nonceLength :: nat where
  "secretbox_nonceLength = 24"

text \<open>\<^verbatim>\<open>randomBytes(n)\<close> of \<^verbatim>\<open>tweetnacl\<close>: \<open>n\<close> fresh bytes.\<close>

fun draw :: "('r \<Rightarrow> 8 word \<times> 'r) \<Rightarrow> nat \<Rightarrow> 'r \<Rightarrow> bytes \<times> 'r" where
  "draw g 0 r = ([], r)"
| "draw g (Suc n) r =
     (case g r of (b, r') \<Rightarrow> (case draw g n r' of (bs, r'') \<Rightarrow> (b # bs, r'')))"

definition randomBytes :: "('k, 'r) env \<Rightarrow> nat \<Rightarrow> 'r World \<Rightarrow> bytes \<times> 'r World" where
  "randomBytes env n w =
     (case draw (nextByte env) n (entropy w) of (bs, r) \<Rightarrow> (bs, w\<lparr>entropy := r\<rparr>))"

text \<open>
  \<^verbatim>\<open>secretbox\<close> and \<^verbatim>\<open>secretbox.open\<close> of \<^verbatim>\<open>tweetnacl\<close> check the sizes of the key and of
  the nonce first and throw on a wrong one.
\<close>

definition checkLengths :: "bytes \<Rightarrow> bytes \<Rightarrow> error option" where
  "checkLengths k n =
     (if length k \<noteq> secretbox_keyLength then Some (Error ''bad key size'')
      else if length n \<noteq> secretbox_nonceLength then Some (Error ''bad nonce size'')
      else None)"

definition secretbox :: "('k, 'r) env \<Rightarrow> bytes \<Rightarrow> bytes \<Rightarrow> bytes \<Rightarrow> error + bytes" where
  "secretbox env msg n k =
     (case checkLengths k n of
        Some e \<Rightarrow> Inl e
      | None \<Rightarrow> Inr (xsalsa20_poly1305 env msg n k))"

definition secretbox_open ::
  "('k, 'r) env \<Rightarrow> bytes \<Rightarrow> bytes \<Rightarrow> bytes \<Rightarrow> error + bytes option" where
  "secretbox_open env box n k =
     (case checkLengths k n of
        Some e \<Rightarrow> Inl e
      | None \<Rightarrow> Inr (xsalsa20_poly1305_open env box n k))"

text \<open>
  \<^verbatim>\<open>Buffer.from(plaintext)\<close> of what \<^verbatim>\<open>secretbox.open\<close> returned: a \<^verbatim>\<open>TypeError\<close> when the
  argument is \<^verbatim>\<open>null\<close>.
\<close>

definition Buffer_from :: "bytes option \<Rightarrow> error + bytes" where
  "Buffer_from plaintext = (case plaintext of None \<Rightarrow> Inl TypeError | Some b \<Rightarrow> Inr b)"

subsection \<open>\<^verbatim>\<open>deriveEncryptionKey\<close>\<close>

definition deriveEncryptionKey :: "('k, 'r) env \<Rightarrow> string \<Rightarrow> bytes \<Rightarrow> error + bytes" where
  "deriveEncryptionKey env password saltBytes =
     (case pbkdf2_pbkdf2 env password saltBytes pbkdf2Iterations secretbox_keyLength
             pbkdf2Digest of
        Inl err \<Rightarrow> Inl err
      | Inr key \<Rightarrow> Inr key)"

subsection \<open>\<^verbatim>\<open>useAccounts\<close>: initialising the vault\<close>

text \<open>
  \<^verbatim>\<open>firstAvailableAddress ? initialAccounts[firstAvailableAddress] : undefined\<close>: the
  empty string is falsy as \<^verbatim>\<open>undefined\<close> is.
\<close>

definition initAccounts ::
  "('k, 'r) env \<Rightarrow> string \<Rightarrow> Accounts \<Rightarrow> 'r World \<Rightarrow> (error + unit) \<times> 'r World" where
  "initAccounts env password initialAccounts w =
     (if length password < 1 then
        (Inl (Error ''Password must be at least 1 character''), w)
      else
        (case randomBytes env pbkdf2SaltSize w of (newSalt, w1) \<Rightarrow>
        (case deriveEncryptionKey env password newSalt of
           Inl e \<Rightarrow> (Inl e, w1)
         | Inr newEncryptionKey \<Rightarrow>
        (let plaintext = JSON_stringify env initialAccounts in
        (case randomBytes env secretbox_nonceLength w1 of (newNonce, w2) \<Rightarrow>
        (case secretbox env (utf8_encode env plaintext) newNonce newEncryptionKey of
           Inl e \<Rightarrow> (Inl e, w2)
         | Inr newCiphertext \<Rightarrow>
        (let newEncryptedAccounts =
               \<lparr>ciphertext = bs58_encode env newCiphertext,
                nonce = bs58_encode env newNonce\<rparr>;
             firstAvailableAddress = first_key initialAccounts;
             firstAvailableAccount =
               (case firstAvailableAddress of
                  None \<Rightarrow> None
                | Some k \<Rightarrow> if k \<noteq> [] then map_of initialAccounts k else None)
         in (Inr (),
             updateSessionState
               (\<lambda>s. s\<lparr>accounts := Some initialAccounts,
                      encryptionKey := Some (bs58_encode env newEncryptionKey)\<rparr>)
               (updatePersistentState
                  (\<lambda>p. p\<lparr>activeAccountAddress := map_option address firstAvailableAccount,
                         activeAccountPublicKey :=
                           map_option publicKey firstAvailableAccount,
                         encryptedAccounts := Some newEncryptedAccounts,
                         encryptedStateVersion := Some (latestVersion env),
                         salt := Some (bs58_encode env newSalt)\<rparr>)
                  w2)))))))))"

subsection \<open>\<^verbatim>\<open>useInitializedAccounts\<close>: locking and unlocking\<close>

text \<open>The properties the hook is given: \<^verbatim>\<open>UseInitializedAccountsProps\<close>.\<close>

record UseInitializedAccountsProps =
  encryptedAccountsP :: EncryptedAccounts
  encryptedStateVersionP :: int
  saltP :: string

definition clearAccounts :: "'r World \<Rightarrow> (error + unit) \<times> 'r World" where
  "clearAccounts w =
     (let w1 = updatePersistentState
                 (\<lambda>p. p\<lparr>activeAccountAddress := None,
                        activeAccountPublicKey := None,
                        encryptedAccounts := None,
                        salt := None\<rparr>) w
      in (Inr (),
          updateSessionState (\<lambda>s. s\<lparr>accounts := None, encryptionKey := None\<rparr>) w1))"

text \<open>
  \<^verbatim>\<open>delete newAccounts[key].mnemonic\<close>: the account stored under \<open>key\<close> loses its
  mnemonic, in place.
\<close>

definition delete_mnemonic :: "string \<Rightarrow> Accounts \<Rightarrow> Accounts" where
  "delete_mnemonic key obj =
     map (\<lambda>(k, a). if k = key then (k, a\<lparr>mnemonic := None\<rparr>) else (k, a)) obj"

definition migrateEncryptedState ::
  "('k, 'r) env \<Rightarrow> UseInitializedAccountsProps \<Rightarrow> Accounts \<Rightarrow> bytes \<Rightarrow> 'r World
     \<Rightarrow> (error + Accounts) \<times> 'r World" where
  "migrateEncryptedState env props accs key w =
     (if encryptedStateVersionP props = latestVersion env then (Inr accs, w)
      else
        (let newAccounts =
               (if encryptedStateVersionP props < 1
                then fold delete_mnemonic (Object_keys accs) accs
                else accs);
             newPlaintext = JSON_stringify env newAccounts
         in
        (case randomBytes env secretbox_nonceLength w of (newNonce, w1) \<Rightarrow>
        (case secretbox env (utf8_encode env newPlaintext) newNonce key of
           Inl e \<Rightarrow> (Inl e, w1)
         | Inr newCiphertext \<Rightarrow>
        (let newEncryptedAccounts =
               \<lparr>ciphertext = bs58_encode env newCiphertext,
                nonce = bs58_encode env newNonce\<rparr>
         in (Inr newAccounts,
             updatePersistentState
               (\<lambda>p. p\<lparr>encryptedAccounts := Some newEncryptedAccounts,
                      encryptedStateVersion := Some 1\<rparr>)
               w1))))))"

definition unlockAccounts ::
  "('k, 'r) env \<Rightarrow> UseInitializedAccountsProps \<Rightarrow> string \<Rightarrow> 'r World
     \<Rightarrow> (error + unit) \<times> 'r World" where
  "unlockAccounts env props password w =
     (case bs58_decode env (ciphertext (encryptedAccountsP props)) of
        Inl e \<Rightarrow> (Inl e, w)
      | Inr ciphertextBytes \<Rightarrow>
     (case bs58_decode env (nonce (encryptedAccountsP props)) of
        Inl e \<Rightarrow> (Inl e, w)
      | Inr nonceBytes \<Rightarrow>
     (case bs58_decode env (saltP props) of
        Inl e \<Rightarrow> (Inl e, w)
      | Inr saltBytes \<Rightarrow>
     (case deriveEncryptionKey env password saltBytes of
        Inl e \<Rightarrow> (Inl e, w)
      | Inr newEncryptionKey \<Rightarrow>
     (case secretbox_open env ciphertextBytes nonceBytes newEncryptionKey of
        Inl e \<Rightarrow> (Inl e, w)
      | Inr plaintext \<Rightarrow>
     (case Buffer_from plaintext of
        Inl e \<Rightarrow> (Inl e, w)
      | Inr buffer \<Rightarrow>
     (let decodedPlaintext = utf8_decode env buffer in
     (case JSON_parse env decodedPlaintext of
        Inl e \<Rightarrow> (Inl e, w)
      | Inr parsedAccounts \<Rightarrow>
     (case migrateEncryptedState env props parsedAccounts newEncryptionKey w of
        (Inl e, w1) \<Rightarrow> (Inl e, w1)
      | (Inr newAccounts, w1) \<Rightarrow>
          (Inr (),
           updateSessionState
             (\<lambda>s. s\<lparr>accounts := Some newAccounts,
                    encryptionKey := Some (bs58_encode env newEncryptionKey)\<rparr>)
             w1))))))))))"

definition lockAccounts :: "'r World \<Rightarrow> (error + unit) \<times> 'r World" where
  "lockAccounts w =
     (Inr (), updateSessionState (\<lambda>s. s\<lparr>accounts := None, encryptionKey := None\<rparr>) w)"

definition changePassword ::
  "('k, 'r) env \<Rightarrow> UseInitializedAccountsProps \<Rightarrow> string \<Rightarrow> string \<Rightarrow> 'r World
     \<Rightarrow> (error + unit) \<times> 'r World" where
  "changePassword env props oldPassword newPassword w =
     (case bs58_decode env (ciphertext (encryptedAccountsP props)) of
        Inl e \<Rightarrow> (Inl e, w)
      | Inr ciphertextBytes \<Rightarrow>
     (case bs58_decode env (nonce (encryptedAccountsP props)) of
        Inl e \<Rightarrow> (Inl e, w)
      | Inr nonceBytes \<Rightarrow>
     (case bs58_decode env (saltP props) of
        Inl e \<Rightarrow> (Inl e, w)
      | Inr saltBytes \<Rightarrow>
     (case deriveEncryptionKey env oldPassword saltBytes of
        Inl e \<Rightarrow> (Inl e, w)
      | Inr oldEncryptionKey \<Rightarrow>
     (case secretbox_open env ciphertextBytes nonceBytes oldEncryptionKey of
        Inl e \<Rightarrow> (Inl e, w)
      | Inr plaintext \<Rightarrow>
     (if plaintext = None then (Inl (Error ''Incorrect current password''), w)
      else
     (case Buffer_from plaintext of
        Inl e \<Rightarrow> (Inl e, w)
      | Inr buffer \<Rightarrow>
     (let decodedPlaintext = utf8_decode env buffer in
     (case JSON_parse env decodedPlaintext of
        Inl e \<Rightarrow> (Inl e, w)
      | Inr newAccounts \<Rightarrow>
     (case randomBytes env pbkdf2SaltSize w of (newSalt, w1) \<Rightarrow>
     (case deriveEncryptionKey env newPassword newSalt of
        Inl e \<Rightarrow> (Inl e, w1)
      | Inr newEncryptionKey \<Rightarrow>
     (let newPlaintext = JSON_stringify env newAccounts in
     (case randomBytes env secretbox_nonceLength w1 of (newNonce, w2) \<Rightarrow>
     (case secretbox env (utf8_encode env newPlaintext) newNonce newEncryptionKey of
        Inl e \<Rightarrow> (Inl e, w2)
      | Inr newCiphertext \<Rightarrow>
     (let newEncryptedAccounts =
            \<lparr>ciphertext = bs58_encode env newCiphertext,
             nonce = bs58_encode env newNonce\<rparr>
      in (Inr (),
          updateSessionState
            (\<lambda>s. s\<lparr>encryptionKey := Some (bs58_encode env newEncryptionKey)\<rparr>)
            (updatePersistentState
               (\<lambda>p. p\<lparr>encryptedAccounts := Some newEncryptedAccounts,
                      salt := Some (bs58_encode env newSalt)\<rparr>)
               w2)))))))))))))))))"

subsection \<open>\<^verbatim>\<open>useUnlockedAccounts\<close>: the account registry\<close>

text \<open>
  The properties the hook is given: \<^verbatim>\<open>UseUnlockedAccountsProps\<close>. The hook reads
  \<^verbatim>\<open>activeAccountAddress\<close> from the persistent state.
\<close>

record UseUnlockedAccountsProps =
  accountsP :: Accounts
  encryptionKeyP :: string

definition encryptAccounts ::
  "('k, 'r) env \<Rightarrow> UseUnlockedAccountsProps \<Rightarrow> Accounts \<Rightarrow> 'r World
     \<Rightarrow> (error + EncryptedAccounts) \<times> 'r World" where
  "encryptAccounts env props newAccounts w =
     (let plaintext = JSON_stringify env newAccounts in
     (case randomBytes env secretbox_nonceLength w of (newNonce, w1) \<Rightarrow>
     (case bs58_decode env (encryptionKeyP props) of
        Inl e \<Rightarrow> (Inl e, w1)
      | Inr key \<Rightarrow>
     (case secretbox env (utf8_encode env plaintext) newNonce key of
        Inl e \<Rightarrow> (Inl e, w1)
      | Inr newCiphertext \<Rightarrow>
          (Inr \<lparr>ciphertext = bs58_encode env newCiphertext,
                nonce = bs58_encode env newNonce\<rparr>, w1)))))"

definition addAccount ::
  "('k, 'r) env \<Rightarrow> UseUnlockedAccountsProps \<Rightarrow> Account \<Rightarrow> 'r World
     \<Rightarrow> (error + unit) \<times> 'r World" where
  "addAccount env props account w =
     (let newAccounts = AList.update (address account) account (accountsP props) in
     (case encryptAccounts env props newAccounts w of
        (Inl e, w1) \<Rightarrow> (Inl e, w1)
      | (Inr newEncryptedAccounts, w1) \<Rightarrow>
     (let w2 = updateSessionState (\<lambda>s. s\<lparr>accounts := Some newAccounts\<rparr>) w1;
          w3 = updatePersistentState
                 (\<lambda>p. p\<lparr>activeAccountAddress := Some (address account),
                        activeAccountPublicKey := Some (publicKey account),
                        encryptedAccounts := Some newEncryptedAccounts\<rparr>) w2;
          publicAccount = PublicAccount (address account) (publicKey account)
      in (Inr (), triggerAccountChange (Some publicAccount) w3))))"

text \<open>
  \<^verbatim>\<open>mnemonic ? { mnemonic, ...keysFromAptosAccount(aptosAccount) }
  : keysFromAptosAccount(aptosAccount)\<close>: the empty string is falsy, and a mnemonic among
  the derived keys would overwrite the given one.
\<close>

definition derivedAccount :: "('k, 'r) env \<Rightarrow> 'k \<Rightarrow> string option \<Rightarrow> Account" where
  "derivedAccount env aptosAccount mnemonicArg =
     (let keys = keysFromAptosAccount env aptosAccount in
      (case mnemonicArg of
         None \<Rightarrow> keys
       | Some m \<Rightarrow>
           if m \<noteq> [] then
             keys\<lparr>mnemonic := (case mnemonic keys of None \<Rightarrow> Some m | Some m' \<Rightarrow> Some m')\<rparr>
           else keys))"

text \<open>
  \<^verbatim>\<open>err instanceof ApiError && err.errorCode === 'table_item_not_found'\<close>.
\<close>

definition table_item_not_found :: "error \<Rightarrow> bool" where
  "table_item_not_found err =
     (case err of ApiError errorCode \<Rightarrow> errorCode = Some ''table_item_not_found''
      | _ \<Rightarrow> False)"

text \<open>
  The \<^verbatim>\<open>try\<close> block holds the lookup and the \<^verbatim>\<open>addAccount\<close> that follows it; the \<^verbatim>\<open>catch\<close>
  block runs in the world the \<^verbatim>\<open>try\<close> block left. (The \<^verbatim>\<open>console.error\<close> of the \<^verbatim>\<open>catch\<close>
  block has no effect on the world.)
\<close>

definition lookUpAndAddAccount ::
  "('k, 'r) env \<Rightarrow> UseUnlockedAccountsProps \<Rightarrow> 'k \<Rightarrow> string option \<Rightarrow> 'r World
     \<Rightarrow> (error + unit) \<times> 'r World" where
  "lookUpAndAddAccount env props aptosAccount mnemonicArg w =
     (case (case lookupOriginalAddress env aptosAccount mnemonicArg of
              Inl err \<Rightarrow> (Inl err, w)
            | Inr newAccount \<Rightarrow> addAccount env props newAccount w) of
        (Inr u, w1) \<Rightarrow> (Inr u, w1)
      | (Inl err, w1) \<Rightarrow>
          if table_item_not_found err then
            addAccount env props (derivedAccount env aptosAccount mnemonicArg) w1
          else (Inl err, w1))"

text \<open>
  \<^verbatim>\<open>delete newAccounts[address]; newAccounts[address] = newAccount\<close>: the account moves
  to the end of the order of creation.
\<close>

definition updateActiveAccount ::
  "('k, 'r) env \<Rightarrow> UseUnlockedAccountsProps \<Rightarrow> Account \<Rightarrow> 'r World
     \<Rightarrow> (error + unit) \<times> 'r World" where
  "updateActiveAccount env props newAccount w =
     (let addr = address newAccount;
          newAccounts = AList.update addr newAccount (AList.delete addr (accountsP props))
      in
     (case encryptAccounts env props newAccounts w of
        (Inl e, w1) \<Rightarrow> (Inl e, w1)
      | (Inr newEncryptedAccounts, w1) \<Rightarrow>
     (let w2 = updatePersistentState
                 (\<lambda>p. p\<lparr>activeAccountAddress := Some (address newAccount),
                        activeAccountPublicKey := Some (publicKey newAccount),
                        encryptedAccounts := Some newEncryptedAccounts\<rparr>) w1;
          publicAccount = PublicAccount (address newAccount) (publicKey newAccount)
      in (Inr (),
          updateSessionState (\<lambda>s. s\<lparr>accounts := Some newAccounts\<rparr>)
            (triggerAccountChange (Some publicAccount) w2)))))"

definition removeAccount ::
  "('k, 'r) env \<Rightarrow> UseUnlockedAccountsProps \<Rightarrow> string \<Rightarrow> 'r World
     \<Rightarrow> (error + unit) \<times> 'r World" where
  "removeAccount env props addr w =
     (let newAccounts = AList.delete addr (accountsP props) in
     (case encryptAccounts env props newAccounts w of
        (Inl e, w1) \<Rightarrow> (Inl e, w1)
      | (Inr newEncryptedAccounts, w1) \<Rightarrow>
     (let w3 =
            (if Some addr = activeAccountAddress (persistent w1) then
               (let firstAvailableAddress = first_key newAccounts;
                    firstAvailableAccount =
                      (case firstAvailableAddress of
                         None \<Rightarrow> None
                       | Some k \<Rightarrow> map_of newAccounts k);
                    w2 = updatePersistentState
                           (\<lambda>p. p\<lparr>activeAccountAddress :=
                                    map_option address firstAvailableAccount,
                                  activeAccountPublicKey :=
                                    map_option publicKey firstAvailableAccount,
                                  encryptedAccounts := Some newEncryptedAccounts\<rparr>) w1;
                    publicAccount =
                      (case firstAvailableAccount of
                         None \<Rightarrow> None
                       | Some a \<Rightarrow> Some (PublicAccount (address a) (publicKey a)))
                in triggerAccountChange publicAccount w2)
             else
               updatePersistentState
                 (\<lambda>p. p\<lparr>encryptedAccounts := Some newEncryptedAccounts\<rparr>) w1)
      in (Inr (), updateSessionState (\<lambda>s. s\<lparr>accounts := Some newAccounts\<rparr>) w3))))"

definition switchAccount ::
  "UseUnlockedAccountsProps \<Rightarrow> string \<Rightarrow> 'r World \<Rightarrow> (error + unit) \<times> 'r World" where
  "switchAccount props addr w =
     (let publicKeyOpt = map_option publicKey (map_of (accountsP props) addr);
          publicAccount =
            (case publicKeyOpt of
               None \<Rightarrow> None
             | Some pk \<Rightarrow> Some (PublicAccount addr pk));
          w1 = updatePersistentState
                 (\<lambda>p. p\<lparr>activeAccountAddress := Some addr,
                        activeAccountPublicKey :=
                          (case publicAccount of
                             None \<Rightarrow> None
                           | Some (PublicAccount _ pk) \<Rightarrow> Some pk)\<rparr>) w
      in (Inr (), triggerAccountChange publicAccount w1))"

subsection \<open>Conditions the properties are stated under\<close>

text \<open>
  The session key of an unlocked vault is the base 58 text of a key of the size
  \<^verbatim>\<open>secretbox\<close> takes, as \<open>initAccounts\<close>, \<open>unlockAccounts\<close> and \<open>changePassword\<close> store it.
\<close>

definition valid_session_key :: "('k, 'r) env \<Rightarrow> string \<Rightarrow> bool" where
  "valid_session_key env k =
     (case bs58_decode env k of
        Inl _ \<Rightarrow> False
      | Inr key \<Rightarrow> length key = secretbox_keyLength)"

text \<open>
  Every account of the mapping is stored under its own address (the data model of the
  registry: a mapping from address to account).
\<close>

definition keyed_by_address :: "Accounts \<Rightarrow> bool" where
  "keyed_by_address accs = list_all (\<lambda>(k, a). address a = k) accs"

text \<open>
  What the libraries promise: base 58 decoding undoes the encoding, \<^verbatim>\<open>secretbox.open\<close>
  with the key and the nonce of \<^verbatim>\<open>secretbox\<close> returns the message, and the key derivation
  returns a key of the length it was asked for.
\<close>

definition codec_laws :: "('k, 'r) env \<Rightarrow> bool" where
  "codec_laws env =
     ((\<forall>bs. bs58_decode env (bs58_encode env bs) = Inr bs)
      \<and> (\<forall>msg n k. length k = secretbox_keyLength \<and> length n = secretbox_nonceLength \<longrightarrow>
            xsalsa20_poly1305_open env (xsalsa20_poly1305 env msg n k) n k = Some msg)
      \<and> (\<forall>password s. \<exists>k.
            pbkdf2_pbkdf2 env password s pbkdf2Iterations secretbox_keyLength pbkdf2Digest
              = Inr k
            \<and> length k = secretbox_keyLength))"

text \<open>
  The text of a mapping survives the way through the vault: from \<^verbatim>\<open>JSON.stringify\<close>
  through \<^verbatim>\<open>Buffer.from\<close> and \<^verbatim>\<open>toString\<close> to \<^verbatim>\<open>JSON.parse\<close>.
\<close>

definition serialisable :: "('k, 'r) env \<Rightarrow> Accounts \<Rightarrow> bool" where
  "serialisable env accs =
     (JSON_parse env (utf8_decode env (utf8_encode env (JSON_stringify env accs)))
        = Inr accs)"

subsection \<open>A small instance of the libraries\<close>

text \<open>
  An instance the model can be run on: the key is the length of the password repeated,
  the box is the key followed by the message, texts are the bytes themselves, and the
  JSON texts are those of three mappings. The lookup knows no rotated key for account
  0 and is out of reach for any other account.
\<close>

definition alice :: Account where
  "alice = \<lparr>address = ''0xa'', publicKey = ''pub-a'', privateKey = ''key-a'',
            name = None, mnemonic = Some ''abandon''\<rparr>"

definition bob :: Account where
  "bob = \<lparr>address = ''0xb'', publicKey = ''pub-b'', privateKey = ''key-b'',
          name = Some ''Bob'', mnemonic = None\<rparr>"

definition two_accounts :: Accounts where
  "two_accounts = [(''0xa'', alice), (''0xb'', bob)]"

definition toy_stringify :: "Accounts \<Rightarrow> string" where
  "toy_stringify accs =
     (if accs = two_accounts then ''ab''
      else if accs = [(''0xb'', bob)] then ''b''
      else ''other'')"

definition toy_parse :: "string \<Rightarrow> error + Accounts" where
  "toy_parse s =
     (if s = ''ab'' then Inr two_accounts
      else if s = ''b'' then Inr [(''0xb'', bob)]
      else Inl SyntaxError)"

definition toy_env :: "(nat, nat) env" where
  "toy_env =
     \<lparr>latestVersion = 1,
      pbkdf2_pbkdf2 = (\<lambda>password s iterations keylen digest.
         Inr (replicate keylen (of_nat (length password)))),
      nextByte = (\<lambda>r. (of_nat r, Suc r)),
      xsalsa20_poly1305 = (\<lambda>msg n k. k @ msg),
      xsalsa20_poly1305_open = (\<lambda>box n k.
         if take (length k) box = k then Some (drop (length k) box) else None),
      bs58_encode = map (\<lambda>b. char_of (unat b)),
      bs58_decode = (\<lambda>s. Inr (map (\<lambda>c. of_nat (of_char c)) s)),
      JSON_stringify = toy_stringify,
      JSON_parse = toy_parse,
      utf8_encode = map (\<lambda>c. of_nat (of_char c)),
      utf8_decode = map (\<lambda>b. char_of (unat b)),
      lookupOriginalAddress = (\<lambda>a m.
         if a = 0 then Inl (ApiError (Some ''table_item_not_found''))
         else Inl (ApiError None)),
      keysFromAptosAccount = (\<lambda>a. bob)\<rparr>"

definition toy_world :: "nat World" where
  "toy_world =
     \<lparr>persistent =
        \<lparr>activeAccountAddress = None, activeAccountPublicKey = None,
         encryptedAccounts = None, encryptedStateVersion = None, salt = None\<rparr>,
      session = \<lparr>accounts = None, encryptionKey = None\<rparr>,
      accountChanges = [],
      entropy = 0\<rparr>"

text \<open>
  The vault that seals \<open>two_accounts\<close> under the password \<^verbatim>\<open>pw1\<close>, persisted at a given
  schema version; the properties of the unlocked hook for it; and a world in which the
  first of the two accounts is the active one.
\<close>

definition toy_vault :: "int \<Rightarrow> UseInitializedAccountsProps" where
  "toy_vault v =
     \<lparr>encryptedAccountsP =
        \<lparr>ciphertext = bs58_encode toy_env
            (xsalsa20_poly1305 toy_env
               (utf8_encode toy_env (JSON_stringify toy_env two_accounts))
               (replicate 24 0) (replicate 32 3)),
         nonce = bs58_encode toy_env (replicate 24 0)\<rparr>,
      encryptedStateVersionP = v,
      saltP = bs58_encode toy_env (replicate 16 0)\<rparr>"

definition toy_unlocked :: UseUnlockedAccountsProps where
  "toy_unlocked =
     \<lparr>accountsP = two_accounts,
      encryptionKeyP = bs58_encode toy_env (replicate 32 3)\<rparr>"

definition toy_active_world :: "nat World" where
  "toy_active_world =
     toy_world\<lparr>persistent :=
       (persistent toy_world)\<lparr>activeAccountAddress := Some ''0xa'',
                               activeAccountPublicKey := Some ''pub-a''\<rparr>\<rparr>"

section \<open>Auxiliary facts\<close>

lemma length_draw: "draw g n r = (bs, r') \<Longrightarrow> length bs = n"
  by (induction n arbitrary: r bs r') (auto split: prod.splits)

lemma randomBytes_length: "randomBytes env n w = (bs, w') \<Longrightarrow> length bs = n"
  by (auto simp: randomBytes_def split: prod.splits dest: length_draw)

lemma randomBytes_world:
  "randomBytes env n w = (bs, w') \<Longrightarrow>
   persistent w' = persistent w \<and> session w' = session w
   \<and> accountChanges w' = accountChanges w"
  by (auto simp: randomBytes_def split: prod.splits)

lemma secretbox_ok:
  "length k = secretbox_keyLength \<Longrightarrow> length n = secretbox_nonceLength \<Longrightarrow>
   secretbox env msg n k = Inr (xsalsa20_poly1305 env msg n k)"
  by (simp add: secretbox_def checkLengths_def)

lemma secretbox_open_key_length:
  "secretbox_open env box n k = Inr r \<Longrightarrow> length k = secretbox_keyLength"
  by (auto simp: secretbox_open_def checkLengths_def split: if_splits)

lemma encryptAccounts_valid:
  assumes "valid_session_key env (encryptionKeyP props)"
  shows "\<exists>ea w1. encryptAccounts env props accs w = (Inr ea, w1)
           \<and> persistent w1 = persistent w \<and> session w1 = session w
           \<and> accountChanges w1 = accountChanges w"
proof -
  obtain n w1 where r: "randomBytes env secretbox_nonceLength w = (n, w1)"
    by (cases "randomBytes env secretbox_nonceLength w")
  from assms obtain k where k: "bs58_decode env (encryptionKeyP props) = Inr k"
    and lk: "length k = secretbox_keyLength"
    by (auto simp: valid_session_key_def split: sum.splits)
  have "secretbox env (utf8_encode env (JSON_stringify env accs)) n k =
          Inr (xsalsa20_poly1305 env (utf8_encode env (JSON_stringify env accs)) n k)"
    using lk randomBytes_length [OF r] by (rule secretbox_ok)
  then show ?thesis
    using r k randomBytes_world [OF r] by (simp add: encryptAccounts_def)
qed

lemma set_Object_keys: "set (Object_keys obj) = fst ` set obj"
  by (auto simp: Object_keys_def)

lemma first_key_None: "first_key obj = None \<longleftrightarrow> obj = []"
  using set_Object_keys [of obj]
  by (cases "Object_keys obj") (auto simp: first_key_def)

lemma first_key_Some: "first_key obj = Some k \<Longrightarrow> \<exists>a. map_of obj k = Some a"
proof -
  assume "first_key obj = Some k"
  then have "k \<in> set (Object_keys obj)"
    by (auto simp: first_key_def split: list.splits)
  then have "k \<in> fst ` set obj" by (simp add: set_Object_keys)
  then show ?thesis by (metis domD dom_map_of_conv_image_fst)
qed

lemma keyed_map_of:
  "keyed_by_address accs \<Longrightarrow> map_of accs k = Some a \<Longrightarrow> address a = k"
  by (auto simp: keyed_by_address_def list_all_iff dest: map_of_SomeD)

lemma keyed_delete: "keyed_by_address accs \<Longrightarrow> keyed_by_address (AList.delete k accs)"
  by (auto simp: keyed_by_address_def list_all_iff AList.delete_eq)

lemma fold_delete_mnemonic:
  "fold delete_mnemonic ks obj =
     map (\<lambda>(k, a). if k \<in> set ks then (k, a\<lparr>mnemonic := None\<rparr>) else (k, a)) obj"
proof (induction ks arbitrary: obj)
  case Nil
  then show ?case by (simp add: case_prod_unfold)
next
  case (Cons x xs)
  show ?case
    by (simp add: Cons.IH) (auto simp: delete_mnemonic_def)
qed

lemma strip_all:
  "fold delete_mnemonic (Object_keys obj) obj = map (\<lambda>(k, a). (k, a\<lparr>mnemonic := None\<rparr>)) obj"
  by (simp add: fold_delete_mnemonic set_Object_keys) force

lemma derive_key:
  assumes "codec_laws env"
  shows "\<exists>k. deriveEncryptionKey env password s = Inr k \<and> length k = secretbox_keyLength"
proof -
  from assms obtain k where
    "pbkdf2_pbkdf2 env password s pbkdf2Iterations secretbox_keyLength pbkdf2Digest = Inr k"
    and "length k = secretbox_keyLength"
    unfolding codec_laws_def by blast
  then show ?thesis by (simp add: deriveEncryptionKey_def)
qed

lemma unlock_sealed:
  assumes laws: "codec_laws env" and ser: "serialisable env accs"
    and k: "deriveEncryptionKey env password s = Inr k"
    and lk: "length k = secretbox_keyLength" and ln: "length n = secretbox_nonceLength"
  shows "unlockAccounts env
           \<lparr>encryptedAccountsP =
              \<lparr>ciphertext = bs58_encode env
                  (xsalsa20_poly1305 env (utf8_encode env (JSON_stringify env accs)) n k),
               nonce = bs58_encode env n\<rparr>,
            encryptedStateVersionP = latestVersion env,
            saltP = bs58_encode env s\<rparr> password w
         = (Inr (),
            updateSessionState
              (\<lambda>s. s\<lparr>accounts := Some accs,
                     encryptionKey := Some (bs58_encode env k)\<rparr>) w)"
proof -
  have dec: "\<And>bs. bs58_decode env (bs58_encode env bs) = Inr bs"
    using laws by (simp add: codec_laws_def)
  have "xsalsa20_poly1305_open env
          (xsalsa20_poly1305 env (utf8_encode env (JSON_stringify env accs)) n k) n k
        = Some (utf8_encode env (JSON_stringify env accs))"
    using laws lk ln by (simp add: codec_laws_def)
  then have opened: "secretbox_open env
          (xsalsa20_poly1305 env (utf8_encode env (JSON_stringify env accs)) n k) n k
        = Inr (Some (utf8_encode env (JSON_stringify env accs)))"
    using lk ln by (simp add: secretbox_open_def checkLengths_def)
  have parsed: "JSON_parse env (utf8_decode env (utf8_encode env (JSON_stringify env accs)))
        = Inr accs"
    using ser by (simp add: serialisable_def)
  show ?thesis
    by (simp add: unlockAccounts_def dec k opened Buffer_from_def parsed
          migrateEncryptedState_def)
qed

subsection \<open>The small instance\<close>

lemma byte_of_char_of: "of_nat (of_char (char_of (unat (b :: 8 word)))) = b"
proof -
  have "unat b < 256" using unsigned_less [of b] by simp
  then show ?thesis by (simp add: of_char_of)
qed

lemma char_of_byte_of: "char_of (unat (of_nat (of_char c) :: 8 word)) = c"
  by (simp add: unat_of_nat take_bit_eq_mod [symmetric] char_of_take_bit_eq)

lemma toy_bs58: "bs58_decode toy_env (bs58_encode toy_env bs) = Inr bs"
  by (simp add: toy_env_def comp_def byte_of_char_of del: of_char_of)

lemma toy_utf8: "utf8_decode toy_env (utf8_encode toy_env s) = s"
  by (simp add: toy_env_def comp_def char_of_byte_of)

lemma toy_derive:
  "deriveEncryptionKey toy_env password s = Inr (replicate 32 (of_nat (length password)))"
  by (simp add: deriveEncryptionKey_def toy_env_def secretbox_keyLength_def)

lemma toy_open:
  "length k = 32 \<Longrightarrow>
   secretbox_open toy_env (xsalsa20_poly1305 toy_env msg (replicate 24 0) (replicate 32 3))
     (replicate 24 0) k
   = Inr (if k = replicate 32 3 then Some msg else None)"
  by (auto simp: secretbox_open_def checkLengths_def toy_env_def secretbox_keyLength_def
        secretbox_nonceLength_def)

lemma toy_laws: "codec_laws toy_env"
  unfolding codec_laws_def
proof (intro conjI allI impI)
  fix bs show "bs58_decode toy_env (bs58_encode toy_env bs) = Inr bs" by (rule toy_bs58)
next
  fix msg n k
  show "xsalsa20_poly1305_open toy_env (xsalsa20_poly1305 toy_env msg n k) n k = Some msg"
    by (simp add: toy_env_def)
next
  fix password s
  show "\<exists>k. pbkdf2_pbkdf2 toy_env password s pbkdf2Iterations secretbox_keyLength pbkdf2Digest
              = Inr k \<and> length k = secretbox_keyLength"
    by (simp add: toy_env_def)
qed

lemma toy_serialisable: "serialisable toy_env two_accounts"
  by (simp add: serialisable_def toy_utf8) (simp add: toy_env_def toy_stringify_def toy_parse_def)

lemma toy_session_key: "valid_session_key toy_env (encryptionKeyP toy_unlocked)"
  by (simp add: valid_session_key_def toy_unlocked_def toy_bs58 secretbox_keyLength_def)

lemma toy_vault_decodes:
  "bs58_decode toy_env (ciphertext (encryptedAccountsP (toy_vault v)))
     = Inr (xsalsa20_poly1305 toy_env
              (utf8_encode toy_env (JSON_stringify toy_env two_accounts))
              (replicate 24 0) (replicate 32 3))"
  "bs58_decode toy_env (nonce (encryptedAccountsP (toy_vault v))) = Inr (replicate 24 0)"
  "bs58_decode toy_env (saltP (toy_vault v)) = Inr (replicate 16 0)"
  by (simp_all add: toy_vault_def toy_bs58)

lemma toy_wrong_key:
  "secretbox_open toy_env
     (xsalsa20_poly1305 toy_env
        (utf8_encode toy_env (JSON_stringify toy_env two_accounts))
        (replicate 24 0) (replicate 32 3))
     (replicate 24 0) (replicate 32 (of_nat (length ''pass2''))) = Inr None"
  by (simp add: toy_open)

lemma toy_right_key:
  "secretbox_open toy_env
     (xsalsa20_poly1305 toy_env
        (utf8_encode toy_env (JSON_stringify toy_env two_accounts))
        (replicate 24 0) (replicate 32 3))
     (replicate 24 0) (replicate 32 (of_nat (length ''pw1'')))
   = Inr (Some (utf8_encode toy_env (JSON_stringify toy_env two_accounts)))"
  by (simp add: toy_open)

section \<open>Properties\<close>

text \<open>
  C6. For every initial account mapping and every password of length below 1,
  \<open>initAccounts\<close> throws the error of an invalid password,
  \<^verbatim>\<open>Error('Password must be at least 1 character')\<close>, and the world after the call is the
  world before it: nothing is written to the persistent store or to the session store,
  no random byte is drawn and the change sink is not called. A vault that was
  uninitialised stays so.
\<close>

theorem initAccounts_rejects_empty_password:
  "length password < 1 \<Longrightarrow>
   initAccounts env password initialAccounts w =
     (Inl (Error ''Password must be at least 1 character''), w)"
  by (simp add: initAccounts_def)

theorem initAccounts_rejects_empty_password_witness:
  "length '''' < (1::nat)
   \<and> initAccounts toy_env '''' two_accounts toy_world
       = (Inl (Error ''Password must be at least 1 character''), toy_world)"
proof -
  have h: "length '''' < (1::nat)" by simp
  show ?thesis
    using h initAccounts_rejects_empty_password [OF h, of toy_env two_accounts toy_world]
    by simp
qed

text \<open>
  C7. For every account mapping and every vault whose schema version equals the latest
  version, \<open>migrateEncryptedState\<close> returns the mapping it was given and leaves the world
  as it was: no nonce is drawn, nothing is sealed again and nothing is written to the
  persistent store.
\<close>

theorem migrateEncryptedState_latest_is_noop:
  "encryptedStateVersionP props = latestVersion env \<Longrightarrow>
   migrateEncryptedState env props accs key w = (Inr accs, w)"
  by (simp add: migrateEncryptedState_def)

theorem migrateEncryptedState_latest_is_noop_witness:
  "encryptedStateVersionP (toy_vault 1) = latestVersion toy_env
   \<and> migrateEncryptedState toy_env (toy_vault 1) two_accounts (replicate 32 3) toy_world
       = (Inr two_accounts, toy_world)"
proof -
  have h: "encryptedStateVersionP (toy_vault 1) = latestVersion toy_env"
    by (simp add: toy_vault_def toy_env_def)
  show ?thesis
    using h migrateEncryptedState_latest_is_noop
            [OF h, of two_accounts "replicate 32 3" toy_world]
    by simp
qed

text \<open>
  C9. For every unlocked state and every address, in the mapping or not,
  \<open>switchAccount\<close> succeeds: it persists the address as the active address (and, as the
  active public key, the public key of the account stored under it, if any), leaves the
  encrypted vault, the salt, the schema version and the session state (the decrypted
  mapping and the key) as they were, and calls the change sink once, with the address
  and the public key when the account exists and with \<^verbatim>\<open>undefined\<close> otherwise.
\<close>

theorem switchAccount_changes_only_the_pointer:
  "fst (switchAccount props addr w) = Inr ()
   \<and> persistent (snd (switchAccount props addr w)) =
       (persistent w)\<lparr>activeAccountAddress := Some addr,
                      activeAccountPublicKey :=
                        map_option publicKey (map_of (accountsP props) addr)\<rparr>
   \<and> session (snd (switchAccount props addr w)) = session w
   \<and> entropy (snd (switchAccount props addr w)) = entropy w
   \<and> accountChanges (snd (switchAccount props addr w)) =
       accountChanges w @
         [map_option (\<lambda>a. PublicAccount addr (publicKey a)) (map_of (accountsP props) addr)]"
  by (cases "map_of (accountsP props) addr")
     (simp_all add: switchAccount_def updatePersistentState_def triggerAccountChange_def)

text \<open>
  C10. For every unlocked state and every account given to \<open>updateActiveAccount\<close>, the
  call persists the address and the public key of the account as the active account and
  hands its public information to the change sink, whatever the active account was
  before.
\<close>

theorem updateActiveAccount_makes_argument_active:
  assumes "valid_session_key env (encryptionKeyP props)"
  shows "fst (updateActiveAccount env props newAccount w) = Inr ()
   \<and> activeAccountAddress (persistent (snd (updateActiveAccount env props newAccount w)))
       = Some (address newAccount)
   \<and> activeAccountPublicKey (persistent (snd (updateActiveAccount env props newAccount w)))
       = Some (publicKey newAccount)
   \<and> accountChanges (snd (updateActiveAccount env props newAccount w))
       = accountChanges w @ [Some (PublicAccount (address newAccount) (publicKey newAccount))]"
proof -
  obtain ea w1 where
    "encryptAccounts env props
       (AList.update (address newAccount) newAccount
          (AList.delete (address newAccount) (accountsP props))) w = (Inr ea, w1)"
    and "accountChanges w1 = accountChanges w"
    using encryptAccounts_valid [OF assms] by blast
  then show ?thesis
    by (simp add: updateActiveAccount_def updatePersistentState_def
          updateSessionState_def triggerAccountChange_def Let_def)
qed

theorem updateActiveAccount_makes_argument_active_witness:
  "valid_session_key toy_env (encryptionKeyP toy_unlocked)
   \<and> activeAccountAddress (persistent toy_active_world) = Some ''0xa''
   \<and> fst (updateActiveAccount toy_env toy_unlocked bob toy_active_world) = Inr ()
   \<and> activeAccountAddress
        (persistent (snd (updateActiveAccount toy_env toy_unlocked bob toy_active_world)))
       = Some ''0xb''
   \<and> accountChanges (snd (updateActiveAccount toy_env toy_unlocked bob toy_active_world))
       = [Some (PublicAccount ''0xb'' ''pub-b'')]"
  using toy_session_key
    updateActiveAccount_makes_argument_active
      [OF toy_session_key, of bob toy_active_world]
  by (simp add: bob_def toy_active_world_def toy_world_def)

text \<open>
  C3. For every unlocked mapping and the address of the active account,
  \<open>removeAccount\<close> succeeds and stores the mapping without that address in the session.
  When no account remains, the persisted active address and public key are unset and
  the change sink is called with \<^verbatim>\<open>undefined\<close>. Otherwise the persisted active address
  and public key are those of the account under the first remaining key in the order of
  \<^verbatim>\<open>Object.keys\<close>, the change sink is called with them, and, the accounts being stored
  under their own addresses, the new active address is that first key, a key of the
  remaining mapping.
\<close>

theorem removeAccount_of_active_account:
  assumes key: "valid_session_key env (encryptionKeyP props)"
    and active: "activeAccountAddress (persistent w) = Some addr"
  shows "fst (removeAccount env props addr w) = Inr ()
   \<and> accounts (session (snd (removeAccount env props addr w)))
       = Some (AList.delete addr (accountsP props))
   \<and> (case first_key (AList.delete addr (accountsP props)) of
         None \<Rightarrow>
           AList.delete addr (accountsP props) = []
           \<and> activeAccountAddress (persistent (snd (removeAccount env props addr w))) = None
           \<and> activeAccountPublicKey (persistent (snd (removeAccount env props addr w))) = None
           \<and> accountChanges (snd (removeAccount env props addr w))
               = accountChanges w @ [None]
       | Some k \<Rightarrow>
           (\<exists>a. map_of (AList.delete addr (accountsP props)) k = Some a
              \<and> activeAccountAddress (persistent (snd (removeAccount env props addr w)))
                  = Some (address a)
              \<and> activeAccountPublicKey (persistent (snd (removeAccount env props addr w)))
                  = Some (publicKey a)
              \<and> accountChanges (snd (removeAccount env props addr w))
                  = accountChanges w @ [Some (PublicAccount (address a) (publicKey a))]
              \<and> (keyed_by_address (accountsP props) \<longrightarrow>
                    address a = k
                    \<and> address a \<in> set (Object_keys (AList.delete addr (accountsP props))))))"
proof -
  let ?new = "AList.delete addr (accountsP props)"
  obtain ea w1 where enc: "encryptAccounts env props ?new w = (Inr ea, w1)"
    and p: "persistent w1 = persistent w" and c: "accountChanges w1 = accountChanges w"
    using encryptAccounts_valid [OF key] by blast
  show ?thesis
  proof (cases "first_key ?new")
    case None
    then have "?new = []" by (simp add: first_key_None)
    with None enc p c active show ?thesis
      by (simp add: removeAccount_def updatePersistentState_def
            updateSessionState_def triggerAccountChange_def Let_def)
  next
    case (Some k)
    then obtain a where a: "map_of ?new k = Some a"
      using first_key_Some by blast
    from Some have mem: "k \<in> set (Object_keys ?new)"
      by (auto simp: first_key_def split: list.splits)
    have "keyed_by_address (accountsP props) \<Longrightarrow> address a = k"
      using keyed_map_of [OF keyed_delete a] .
    with Some a mem enc p c active show ?thesis
      by (auto simp: removeAccount_def updatePersistentState_def
            updateSessionState_def triggerAccountChange_def Let_def)
  qed
qed

theorem removeAccount_of_active_account_witness:
  "valid_session_key toy_env (encryptionKeyP toy_unlocked)
   \<and> activeAccountAddress (persistent toy_active_world) = Some ''0xa''
   \<and> keyed_by_address (accountsP toy_unlocked)
   \<and> fst (removeAccount toy_env toy_unlocked ''0xa'' toy_active_world) = Inr ()
   \<and> activeAccountAddress
        (persistent (snd (removeAccount toy_env toy_unlocked ''0xa'' toy_active_world)))
       = Some ''0xb''
   \<and> ''0xb'' \<in> set (Object_keys (AList.delete ''0xa'' (accountsP toy_unlocked)))
   \<and> accountChanges (snd (removeAccount toy_env toy_unlocked ''0xa'' toy_active_world))
       = [Some (PublicAccount ''0xb'' ''pub-b'')]"
proof -
  have a: "activeAccountAddress (persistent toy_active_world) = Some ''0xa''"
    by (simp add: toy_active_world_def)
  have k: "keyed_by_address (accountsP toy_unlocked)"
    by (simp add: keyed_by_address_def toy_unlocked_def two_accounts_def alice_def bob_def)
  have d: "AList.delete ''0xa'' (accountsP toy_unlocked) = [(''0xb'', bob)]"
    by (simp add: toy_unlocked_def two_accounts_def AList.delete_eq)
  have f: "first_key [(''0xb'', bob)] = Some ''0xb''"
    by (simp add: first_key_def Object_keys_def is_array_index_def is_digit_def)
  have c: "accountChanges toy_active_world = []"
    by (simp add: toy_active_world_def toy_world_def)
  note t = removeAccount_of_active_account [OF toy_session_key a, unfolded d f c]
  from t k obtain acct where "map_of [(''0xb'', bob)] ''0xb'' = Some acct"
    and r: "activeAccountAddress
        (persistent (snd (removeAccount toy_env toy_unlocked ''0xa'' toy_active_world)))
       = Some (address acct)"
      "accountChanges (snd (removeAccount toy_env toy_unlocked ''0xa'' toy_active_world))
       = [] @ [Some (PublicAccount (address acct) (publicKey acct))]"
      "address acct \<in> set (Object_keys [(''0xb'', bob)])"
    by auto
  then have "acct = bob" by simp
  with r t toy_session_key a k show ?thesis
    by (simp add: d bob_def)
qed

text \<open>
  C8. When the lookup of the original address fails with the \<^verbatim>\<open>ApiError\<close> of code
  \<^verbatim>\<open>table_item_not_found\<close>, \<open>lookUpAndAddAccount\<close> does what \<open>addAccount\<close> does with the
  account derived from the given key and mnemonic: the address it stores the account
  under and persists as active is the locally derived one. When the lookup fails with
  any other error, that error reaches the caller and the world is as it was: no account
  is added.
\<close>

theorem lookUpAndAddAccount_not_found_falls_back:
  "(lookupOriginalAddress env aptosAccount m = Inl (ApiError (Some ''table_item_not_found''))
      \<longrightarrow>
      lookUpAndAddAccount env props aptosAccount m w
        = addAccount env props (derivedAccount env aptosAccount m) w
      \<and> address (derivedAccount env aptosAccount m)
          = address (keysFromAptosAccount env aptosAccount)
      \<and> (valid_session_key env (encryptionKeyP props) \<longrightarrow>
            fst (lookUpAndAddAccount env props aptosAccount m w) = Inr ()
            \<and> accounts (session (snd (lookUpAndAddAccount env props aptosAccount m w)))
                = Some (AList.update (address (keysFromAptosAccount env aptosAccount))
                          (derivedAccount env aptosAccount m) (accountsP props))
            \<and> activeAccountAddress
                  (persistent (snd (lookUpAndAddAccount env props aptosAccount m w)))
                = Some (address (keysFromAptosAccount env aptosAccount))))
   \<and> (\<forall>err. lookupOriginalAddress env aptosAccount m = Inl err
            \<and> err \<noteq> ApiError (Some ''table_item_not_found'') \<longrightarrow>
          lookUpAndAddAccount env props aptosAccount m w = (Inl err, w))"
proof -
  have addr: "address (derivedAccount env aptosAccount m)
          = address (keysFromAptosAccount env aptosAccount)"
    by (simp add: derivedAccount_def Let_def split: option.splits)
  have nf: "\<And>err. table_item_not_found err \<longleftrightarrow> err = ApiError (Some ''table_item_not_found'')"
    by (auto simp: table_item_not_found_def split: error.splits)
  have fallback: "lookUpAndAddAccount env props aptosAccount m w
        = addAccount env props (derivedAccount env aptosAccount m) w"
    if "lookupOriginalAddress env aptosAccount m = Inl (ApiError (Some ''table_item_not_found''))"
    using that by (simp add: lookUpAndAddAccount_def nf)
  have added: "fst (addAccount env props acc w) = Inr ()
       \<and> accounts (session (snd (addAccount env props acc w)))
           = Some (AList.update (address acc) acc (accountsP props))
       \<and> activeAccountAddress (persistent (snd (addAccount env props acc w)))
           = Some (address acc)"
    if vk: "valid_session_key env (encryptionKeyP props)" for acc
  proof -
    obtain ea w1 where
      "encryptAccounts env props (AList.update (address acc) acc (accountsP props)) w
         = (Inr ea, w1)"
      using encryptAccounts_valid [OF vk] by blast
    then show ?thesis
      by (simp add: addAccount_def updatePersistentState_def
            updateSessionState_def triggerAccountChange_def Let_def)
  qed
  have other: "lookUpAndAddAccount env props aptosAccount m w = (Inl err, w)"
    if "lookupOriginalAddress env aptosAccount m = Inl err"
      and "err \<noteq> ApiError (Some ''table_item_not_found'')" for err
    using that by (simp add: lookUpAndAddAccount_def nf)
  show ?thesis
    using addr fallback added [of "derivedAccount env aptosAccount m"] other
    by (simp add: addr)
qed

theorem lookUpAndAddAccount_not_found_falls_back_witness:
  "lookupOriginalAddress toy_env 0 None = Inl (ApiError (Some ''table_item_not_found''))
   \<and> valid_session_key toy_env (encryptionKeyP toy_unlocked)
   \<and> lookUpAndAddAccount toy_env toy_unlocked 0 None toy_world
       = addAccount toy_env toy_unlocked bob toy_world
   \<and> fst (lookUpAndAddAccount toy_env toy_unlocked 0 None toy_world) = Inr ()
   \<and> activeAccountAddress
        (persistent (snd (lookUpAndAddAccount toy_env toy_unlocked 0 None toy_world)))
       = Some ''0xb''
   \<and> lookupOriginalAddress toy_env 1 None = Inl (ApiError None)
   \<and> ApiError None \<noteq> ApiError (Some ''table_item_not_found'')
   \<and> lookUpAndAddAccount toy_env toy_unlocked 1 None toy_world
       = (Inl (ApiError None), toy_world)"
proof -
  have l0: "lookupOriginalAddress toy_env 0 None
              = Inl (ApiError (Some ''table_item_not_found''))"
    by (simp add: toy_env_def)
  have l1: "lookupOriginalAddress toy_env 1 None = Inl (ApiError None)"
    by (simp add: toy_env_def)
  have d: "derivedAccount toy_env 0 None = bob"
    by (simp add: derivedAccount_def toy_env_def)
  have kb: "keysFromAptosAccount toy_env 0 = bob" by (simp add: toy_env_def)
  have ne: "ApiError None \<noteq> ApiError (Some ''table_item_not_found'')" by simp
  note t0 = lookUpAndAddAccount_not_found_falls_back
      [of toy_env 0 None toy_unlocked toy_world, unfolded d kb]
  note t1 = lookUpAndAddAccount_not_found_falls_back
      [of toy_env 1 None toy_unlocked toy_world]
  have a: "lookUpAndAddAccount toy_env toy_unlocked 0 None toy_world
       = addAccount toy_env toy_unlocked bob toy_world"
    using t0 l0 by blast
  have b: "fst (lookUpAndAddAccount toy_env toy_unlocked 0 None toy_world) = Inr ()"
    using t0 l0 toy_session_key by blast
  have "activeAccountAddress
        (persistent (snd (lookUpAndAddAccount toy_env toy_unlocked 0 None toy_world)))
       = Some (address bob)"
    using t0 l0 toy_session_key by blast
  then have c: "activeAccountAddress
        (persistent (snd (lookUpAndAddAccount toy_env toy_unlocked 0 None toy_world)))
       = Some ''0xb''"
    by (simp add: bob_def)
  have e: "lookUpAndAddAccount toy_env toy_unlocked 1 None toy_world
       = (Inl (ApiError None), toy_world)"
    using t1 l1 ne by blast
  show ?thesis
    using l0 toy_session_key a b c l1 ne e by blast
qed

text \<open>
  C1. What \<open>unlockAccounts\<close> does with a password whose derived key does not open the
  persisted vault: \<^verbatim>\<open>secretbox.open\<close> returns \<^verbatim>\<open>null\<close>, the source hands it to \<^verbatim>\<open>Buffer.from\<close>
  without a check, and the call ends with the \<^verbatim>\<open>TypeError\<close> of \<^verbatim>\<open>Buffer.from(null)\<close>. The
  persistent and the session state are as before the call. The specification asks for
  an explicit error of a failed decryption here, as \<open>changePassword\<close> throws one for a
  wrong old password.
\<close>

theorem unlockAccounts_wrong_key_throws_TypeError:
  assumes "bs58_decode env (ciphertext (encryptedAccountsP props)) = Inr c"
    and "bs58_decode env (nonce (encryptedAccountsP props)) = Inr n"
    and "bs58_decode env (saltP props) = Inr s"
    and "deriveEncryptionKey env password s = Inr k"
    and "secretbox_open env c n k = Inr None"
  shows "unlockAccounts env props password w = (Inl TypeError, w)"
  using assms by (simp add: unlockAccounts_def Buffer_from_def)

theorem unlockAccounts_wrong_key_throws_TypeError_witness:
  "secretbox_open toy_env
     (xsalsa20_poly1305 toy_env
        (utf8_encode toy_env (JSON_stringify toy_env two_accounts))
        (replicate 24 0) (replicate 32 3))
     (replicate 24 0) (replicate 32 (of_nat (length ''pass2''))) = Inr None
   \<and> unlockAccounts toy_env (toy_vault 1) ''pass2'' toy_world = (Inl TypeError, toy_world)"
  using toy_wrong_key
    unlockAccounts_wrong_key_throws_TypeError
      [OF toy_vault_decodes toy_derive toy_wrong_key, of 1 toy_world]
  by simp

text \<open>
  C5. For every persisted vault and every old password whose derived key does not open
  it (\<^verbatim>\<open>secretbox.open\<close> returns \<^verbatim>\<open>null\<close>), \<open>changePassword\<close> throws
  \<^verbatim>\<open>Error('Incorrect current password')\<close> and the world after the call is the world
  before it: the encrypted vault, the salt, the active account, the schema version and
  the session state are unchanged.
\<close>

theorem changePassword_rejects_wrong_old_password:
  assumes "bs58_decode env (ciphertext (encryptedAccountsP props)) = Inr c"
    and "bs58_decode env (nonce (encryptedAccountsP props)) = Inr n"
    and "bs58_decode env (saltP props) = Inr s"
    and "deriveEncryptionKey env oldPassword s = Inr k"
    and "secretbox_open env c n k = Inr None"
  shows "changePassword env props oldPassword newPassword w
           = (Inl (Error ''Incorrect current password''), w)"
  using assms by (simp add: changePassword_def)

theorem changePassword_rejects_wrong_old_password_witness:
  "secretbox_open toy_env
     (xsalsa20_poly1305 toy_env
        (utf8_encode toy_env (JSON_stringify toy_env two_accounts))
        (replicate 24 0) (replicate 32 3))
     (replicate 24 0) (replicate 32 (of_nat (length ''pass2''))) = Inr None
   \<and> changePassword toy_env (toy_vault 1) ''pass2'' ''pass3'' toy_world
       = (Inl (Error ''Incorrect current password''), toy_world)"
  using toy_wrong_key
    changePassword_rejects_wrong_old_password
      [OF toy_vault_decodes toy_derive toy_wrong_key, of 1 "''pass3''" toy_world]
  by simp

text \<open>
  C4. For every vault persisted at schema version 0 (the latest version not being 0)
  and a password whose derived key opens it, \<open>unlockAccounts\<close> succeeds. The mapping it
  stores in the session is the decrypted mapping with the mnemonic of every account
  removed and every other field, every key and the order as they were. It persists
  schema version 1 together with a new encrypted vault: that mapping sealed under the
  same key with a fresh nonce.
\<close>

theorem unlockAccounts_migrates_version_0:
  assumes v0: "encryptedStateVersionP props = 0"
    and latest: "latestVersion env \<noteq> 0"
    and c: "bs58_decode env (ciphertext (encryptedAccountsP props)) = Inr c"
    and n: "bs58_decode env (nonce (encryptedAccountsP props)) = Inr n"
    and s: "bs58_decode env (saltP props) = Inr s"
    and k: "deriveEncryptionKey env password s = Inr k"
    and opened: "secretbox_open env c n k = Inr (Some plaintext)"
    and parsed: "JSON_parse env (utf8_decode env plaintext) = Inr accs"
  shows "fst (unlockAccounts env props password w) = Inr ()
    \<and> accounts (session (snd (unlockAccounts env props password w)))
        = Some (map (\<lambda>(key, a). (key, a\<lparr>mnemonic := None\<rparr>)) accs)
    \<and> encryptionKey (session (snd (unlockAccounts env props password w)))
        = Some (bs58_encode env k)
    \<and> encryptedStateVersion (persistent (snd (unlockAccounts env props password w)))
        = Some 1
    \<and> encryptedAccounts (persistent (snd (unlockAccounts env props password w)))
        = Some \<lparr>ciphertext =
                   bs58_encode env
                     (xsalsa20_poly1305 env
                        (utf8_encode env
                           (JSON_stringify env
                              (map (\<lambda>(key, a). (key, a\<lparr>mnemonic := None\<rparr>)) accs)))
                        (fst (randomBytes env secretbox_nonceLength w)) k),
                 nonce = bs58_encode env (fst (randomBytes env secretbox_nonceLength w))\<rparr>"
proof -
  let ?stripped = "map (\<lambda>(key, a). (key, a\<lparr>mnemonic := None\<rparr>)) accs"
  obtain n' w1 where r: "randomBytes env secretbox_nonceLength w = (n', w1)"
    by (cases "randomBytes env secretbox_nonceLength w")
  have box: "secretbox env (utf8_encode env (JSON_stringify env ?stripped)) n' k
      = Inr (xsalsa20_poly1305 env (utf8_encode env (JSON_stringify env ?stripped)) n' k)"
    using secretbox_open_key_length [OF opened] randomBytes_length [OF r]
    by (rule secretbox_ok)
  have m: "migrateEncryptedState env props accs k w =
      (Inr ?stripped,
       updatePersistentState
         (\<lambda>p. p\<lparr>encryptedAccounts :=
                  Some \<lparr>ciphertext = bs58_encode env
                          (xsalsa20_poly1305 env
                             (utf8_encode env (JSON_stringify env ?stripped)) n' k),
                        nonce = bs58_encode env n'\<rparr>,
                encryptedStateVersion := Some 1\<rparr>) w1)"
    using v0 latest r box by (simp add: migrateEncryptedState_def strip_all Let_def)
  show ?thesis
    using c n s k opened parsed m r
    by (simp add: unlockAccounts_def Buffer_from_def updatePersistentState_def
          updateSessionState_def)
qed


theorem unlockAccounts_migrates_version_0_witness:
  "encryptedStateVersionP (toy_vault 0) = 0 \<and> latestVersion toy_env \<noteq> 0
   \<and> JSON_parse toy_env
        (utf8_decode toy_env (utf8_encode toy_env (JSON_stringify toy_env two_accounts)))
       = Inr two_accounts
   \<and> fst (unlockAccounts toy_env (toy_vault 0) ''pw1'' toy_world) = Inr ()
   \<and> accounts (session (snd (unlockAccounts toy_env (toy_vault 0) ''pw1'' toy_world)))
       = Some [(''0xa'', alice\<lparr>mnemonic := None\<rparr>), (''0xb'', bob)]
   \<and> encryptedStateVersion
        (persistent (snd (unlockAccounts toy_env (toy_vault 0) ''pw1'' toy_world)))
       = Some 1"
proof -
  have v: "encryptedStateVersionP (toy_vault 0) = 0" by (simp add: toy_vault_def)
  have l: "latestVersion toy_env \<noteq> 0" by (simp add: toy_env_def)
  have p: "JSON_parse toy_env
        (utf8_decode toy_env (utf8_encode toy_env (JSON_stringify toy_env two_accounts)))
       = Inr two_accounts"
    using toy_serialisable by (simp add: serialisable_def)
  have b: "bob\<lparr>mnemonic := None\<rparr> = bob" by (simp add: bob_def)
  show ?thesis
    using v l p
      unlockAccounts_migrates_version_0
        [OF v l toy_vault_decodes toy_derive toy_right_key p, of toy_world]
    by (simp add: two_accounts_def b)
qed

text \<open>
  C2. For libraries that keep their promises, every mapping whose text survives the
  way through the vault and every password of at least one character: the vault
  \<open>initAccounts\<close> persists is opened by \<open>unlockAccounts\<close> with the same password, from
  the locked state, to exactly that mapping; and so is the vault \<open>encryptAccounts\<close>
  seals under the session key derived from the password and a salt, when it is
  persisted with that salt at the latest version.
\<close>

theorem seal_then_open_yields_the_mapping:
  assumes laws: "codec_laws env" and ser: "serialisable env accs"
  shows
   "(1 \<le> length password \<longrightarrow>
      (\<exists>ea s.
         fst (initAccounts env password accs w) = Inr ()
         \<and> encryptedAccounts (persistent (snd (initAccounts env password accs w))) = Some ea
         \<and> salt (persistent (snd (initAccounts env password accs w))) = Some s
         \<and> encryptedStateVersion (persistent (snd (initAccounts env password accs w)))
             = Some (latestVersion env)
         \<and> (let props = \<lparr>encryptedAccountsP = ea,
                          encryptedStateVersionP = latestVersion env, saltP = s\<rparr>;
                 locked = snd (lockAccounts (snd (initAccounts env password accs w)))
             in accounts (session locked) = None
                \<and> fst (unlockAccounts env props password locked) = Inr ()
                \<and> accounts (session (snd (unlockAccounts env props password locked)))
                    = Some accs)))
    \<and> (deriveEncryptionKey env password saltBytes = Inr k
        \<and> encryptionKeyP uprops = bs58_encode env k \<longrightarrow>
        (\<exists>ea w1.
           encryptAccounts env uprops accs w = (Inr ea, w1)
           \<and> (let props = \<lparr>encryptedAccountsP = ea,
                            encryptedStateVersionP = latestVersion env,
                            saltP = bs58_encode env saltBytes\<rparr>
               in fst (unlockAccounts env props password w2) = Inr ()
                  \<and> accounts (session (snd (unlockAccounts env props password w2)))
                      = Some accs)))"
proof (intro conjI impI)
  assume pw: "1 \<le> length password"
  obtain newSalt w1 where r1: "randomBytes env pbkdf2SaltSize w = (newSalt, w1)"
    by (cases "randomBytes env pbkdf2SaltSize w")
  obtain key where key: "deriveEncryptionKey env password newSalt = Inr key"
    and lk: "length key = secretbox_keyLength"
    using derive_key [OF laws] by blast
  obtain newNonce w2' where r2: "randomBytes env secretbox_nonceLength w1 = (newNonce, w2')"
    by (cases "randomBytes env secretbox_nonceLength w1")
  have ln: "length newNonce = secretbox_nonceLength"
    using r2 by (rule randomBytes_length)
  have box: "secretbox env (utf8_encode env (JSON_stringify env accs)) newNonce key
      = Inr (xsalsa20_poly1305 env (utf8_encode env (JSON_stringify env accs)) newNonce key)"
    using lk ln by (rule secretbox_ok)
  note u = unlock_sealed [OF laws ser key lk ln]
  have ne: "password \<noteq> []" using pw by auto
  show "\<exists>ea s.
       fst (initAccounts env password accs w) = Inr ()
       \<and> encryptedAccounts (persistent (snd (initAccounts env password accs w))) = Some ea
       \<and> salt (persistent (snd (initAccounts env password accs w))) = Some s
       \<and> encryptedStateVersion (persistent (snd (initAccounts env password accs w)))
           = Some (latestVersion env)
       \<and> (let props = \<lparr>encryptedAccountsP = ea,
                        encryptedStateVersionP = latestVersion env, saltP = s\<rparr>;
               locked = snd (lockAccounts (snd (initAccounts env password accs w)))
           in accounts (session locked) = None
              \<and> fst (unlockAccounts env props password locked) = Inr ()
              \<and> accounts (session (snd (unlockAccounts env props password locked)))
                  = Some accs)"
    using ne r1 key r2 box
    by (simp add: initAccounts_def Let_def lockAccounts_def u
          updatePersistentState_def updateSessionState_def)
next
  assume a: "deriveEncryptionKey env password saltBytes = Inr k
        \<and> encryptionKeyP uprops = bs58_encode env k"
  obtain k' where "deriveEncryptionKey env password saltBytes = Inr k'"
    and "length k' = secretbox_keyLength"
    using derive_key [OF laws] by blast
  with a have lk: "length k = secretbox_keyLength" by simp
  obtain n w1 where r: "randomBytes env secretbox_nonceLength w = (n, w1)"
    by (cases "randomBytes env secretbox_nonceLength w")
  have ln: "length n = secretbox_nonceLength"
    using r by (rule randomBytes_length)
  have dec: "bs58_decode env (bs58_encode env k) = Inr k"
    using laws by (simp add: codec_laws_def)
  have box: "secretbox env (utf8_encode env (JSON_stringify env accs)) n k
      = Inr (xsalsa20_poly1305 env (utf8_encode env (JSON_stringify env accs)) n k)"
    using lk ln by (rule secretbox_ok)
  from a have key: "deriveEncryptionKey env password saltBytes = Inr k" by simp
  note u = unlock_sealed [OF laws ser key lk ln]
  show "\<exists>ea w1.
           encryptAccounts env uprops accs w = (Inr ea, w1)
           \<and> (let props = \<lparr>encryptedAccountsP = ea,
                            encryptedStateVersionP = latestVersion env,
                            saltP = bs58_encode env saltBytes\<rparr>
               in fst (unlockAccounts env props password w2) = Inr ()
                  \<and> accounts (session (snd (unlockAccounts env props password w2)))
                      = Some accs)"
    using a r dec box
    by (simp add: encryptAccounts_def Let_def u updateSessionState_def)
qed

theorem seal_then_open_yields_the_mapping_witness:
  "codec_laws toy_env \<and> serialisable toy_env two_accounts \<and> 1 \<le> length ''pw1''
   \<and> fst (initAccounts toy_env ''pw1'' two_accounts toy_world) = Inr ()
   \<and> (\<exists>ea s.
         encryptedAccounts
           (persistent (snd (initAccounts toy_env ''pw1'' two_accounts toy_world))) = Some ea
         \<and> salt (persistent (snd (initAccounts toy_env ''pw1'' two_accounts toy_world)))
             = Some s
         \<and> accounts (session (snd
             (unlockAccounts toy_env
                \<lparr>encryptedAccountsP = ea, encryptedStateVersionP = latestVersion toy_env,
                 saltP = s\<rparr> ''pw1''
                (snd (lockAccounts (snd (initAccounts toy_env ''pw1'' two_accounts
                   toy_world)))))))
             = Some two_accounts)
   \<and> deriveEncryptionKey toy_env ''pw1'' (replicate 16 0) = Inr (replicate 32 3)
   \<and> (\<exists>ea w1.
         encryptAccounts toy_env toy_unlocked two_accounts toy_world = (Inr ea, w1)
         \<and> accounts (session (snd
             (unlockAccounts toy_env
                \<lparr>encryptedAccountsP = ea, encryptedStateVersionP = latestVersion toy_env,
                 saltP = bs58_encode toy_env (replicate 16 0)\<rparr> ''pw1'' toy_world)))
             = Some two_accounts)"
proof -
  have p: "1 \<le> length ''pw1''" by simp
  have k: "deriveEncryptionKey toy_env ''pw1'' (replicate 16 0) = Inr (replicate 32 3)"
    by (simp add: toy_derive)
  have e: "encryptionKeyP toy_unlocked = bs58_encode toy_env (replicate 32 3)"
    by (simp add: toy_unlocked_def)
  note t = seal_then_open_yields_the_mapping
      [OF toy_laws toy_serialisable, of "''pw1''" toy_world "replicate 16 0"
         "replicate 32 3" toy_unlocked toy_world]
  show ?thesis
    using toy_laws toy_serialisable p k e t
    by (simp add: Let_def) blast
qed

end
